theory Spec2Isabelle
  imports Complex_Main
begin

section \<open>Rigel-A receiver firmware: \<open>rigel-a-rx/rigel-a-sw/src/main.cpp\<close>\<close>

text \<open>
  The sketch owns two functions, \<open>setup()\<close> and \<open>loop()\<close>. Everything else it touches
  is an external object: the RadioLib handle \<open>radio\<close> and the serial port
  \<open>Serial2\<close>. The embedding records every call the sketch makes on those two objects,
  in program order, and takes every value the library hands back from an environment.
\<close>

subsection \<open>Board constants of the RF switch table (lines 42-50)\<close>

datatype pin_name = PC_3 | PC_4 | PC_5

datatype pin_level = LOW | HIGH

datatype op_mode = MODE_IDLE | MODE_RX | MODE_TX_LP | MODE_TX_HP

datatype RfSwitchMode_t = RfSwitchMode op_mode "pin_level list" | END_OF_MODE_TABLE

definition rfswitch_pins :: "pin_name list" where
  "rfswitch_pins = [PC_3, PC_4, PC_5]"

definition rfswitch_table :: "RfSwitchMode_t list" where
  "rfswitch_table =
     [RfSwitchMode MODE_IDLE [LOW, LOW, LOW],
      RfSwitchMode MODE_RX [HIGH, HIGH, LOW],
      RfSwitchMode MODE_TX_LP [HIGH, HIGH, HIGH],
      RfSwitchMode MODE_TX_HP [HIGH, LOW, HIGH],
      END_OF_MODE_TABLE]"

subsection \<open>Calls on the external objects\<close>

text \<open>
  \<open>Begin\<close> carries the nine positional arguments of \<open>radio.begin\<close> as the source
  passes them. Floating-point literals (\<open>10.4\<close>, \<open>1.6\<close>, \<open>3.0\<close>) and the values read
  from \<open>getRSSI\<close>/\<open>getSNR\<close> are only handed on, never computed with, so they stand
  for themselves as reals.
\<close>

datatype radio_call =
    SetRfSwitchTable "pin_name list" "RfSwitchMode_t list"
  | Begin real real nat nat nat int nat real bool
  | SetTCXO real
  | ForceLDRO bool
  | SetRxBoostedGainMode bool
  | ImplicitHeader nat
  | Receive
  | GetRSSI
  | GetSNR

text \<open>
  The overloads of \<open>print\<close>/\<open>println\<close> the sketch uses: a flash literal \<open>F("...")\<close>,
  the Arduino \<open>String\<close> filled by \<open>receive\<close>, an \<open>int\<close> status, a \<open>float\<close> metric.
\<close>

datatype serial_call =
    SerialBegin nat
  | PrintF string
  | PrintlnF string
  | PrintlnString string
  | PrintlnInt int
  | PrintFloat real

datatype event = Radio radio_call | Serial serial_call

subsection \<open>The environment: what RadioLib returns\<close>

text \<open>
  The three status macros come from RadioLib's headers, which are not part of the
  repository; they are a parameter of the model.
\<close>

record radiolib_consts =
  RADIOLIB_ERR_NONE :: int
  RADIOLIB_ERR_RX_TIMEOUT :: int
  RADIOLIB_ERR_CRC_MISMATCH :: int

text \<open>
  Statuses are C++ \<open>int\<close>s that are only compared and printed, never computed with, so
  HOL's \<open>int\<close> holds them. One status per configuration call; for the \<open>k\<close>-th call of \<open>receive\<close> (counted from
  0) a status and the contents left in \<open>str\<close>; for the metrics the value read once
  \<open>k\<close> receive calls have been made.
\<close>

record radio_env =
  begin_result :: int
  setTCXO_result :: int
  forceLDRO_result :: int
  setRxBoostedGainMode_result :: int
  implicitHeader_result :: int
  receive_result :: "nat \<Rightarrow> int \<times> string"
  getRSSI_result :: "nat \<Rightarrow> real"
  getSNR_result :: "nat \<Rightarrow> real"

subsection \<open>The world the sketch acts on\<close>

record world =
  trace :: "event list"
  rx_count :: nat

definition boot :: world where
  "boot = \<lparr>trace = [], rx_count = 0\<rparr>"

definition emit :: "event \<Rightarrow> world \<Rightarrow> world" where
  "emit e w = w\<lparr>trace := trace w @ [e]\<rparr>"

definition Serial2_begin :: "nat \<Rightarrow> world \<Rightarrow> world" where
  "Serial2_begin baud w = emit (Serial (SerialBegin baud)) w"

definition Serial2_print_F :: "string \<Rightarrow> world \<Rightarrow> world" where
  "Serial2_print_F s w = emit (Serial (PrintF s)) w"

definition Serial2_println_F :: "string \<Rightarrow> world \<Rightarrow> world" where
  "Serial2_println_F s w = emit (Serial (PrintlnF s)) w"

definition Serial2_println_String :: "string \<Rightarrow> world \<Rightarrow> world" where
  "Serial2_println_String s w = emit (Serial (PrintlnString s)) w"

definition Serial2_println_int :: "int \<Rightarrow> world \<Rightarrow> world" where
  "Serial2_println_int i w = emit (Serial (PrintlnInt i)) w"

definition Serial2_print_float :: "real \<Rightarrow> world \<Rightarrow> world" where
  "Serial2_print_float x w = emit (Serial (PrintFloat x)) w"

definition radio_setRfSwitchTable ::
  "pin_name list \<Rightarrow> RfSwitchMode_t list \<Rightarrow> world \<Rightarrow> world" where
  "radio_setRfSwitchTable pins table w = emit (Radio (SetRfSwitchTable pins table)) w"

definition radio_begin ::
  "radio_env \<Rightarrow> real \<Rightarrow> real \<Rightarrow> nat \<Rightarrow> nat \<Rightarrow> nat \<Rightarrow> int \<Rightarrow> nat \<Rightarrow> real \<Rightarrow> bool
     \<Rightarrow> world \<Rightarrow> int \<times> world" where
  "radio_begin env a1 a2 a3 a4 a5 a6 a7 a8 a9 w =
     (begin_result env, emit (Radio (Begin a1 a2 a3 a4 a5 a6 a7 a8 a9)) w)"

definition radio_setTCXO :: "radio_env \<Rightarrow> real \<Rightarrow> world \<Rightarrow> int \<times> world" where
  "radio_setTCXO env v w = (setTCXO_result env, emit (Radio (SetTCXO v)) w)"

definition radio_forceLDRO :: "radio_env \<Rightarrow> bool \<Rightarrow> world \<Rightarrow> int \<times> world" where
  "radio_forceLDRO env b w = (forceLDRO_result env, emit (Radio (ForceLDRO b)) w)"

definition radio_setRxBoostedGainMode :: "radio_env \<Rightarrow> bool \<Rightarrow> world \<Rightarrow> int \<times> world" where
  "radio_setRxBoostedGainMode env b w =
     (setRxBoostedGainMode_result env, emit (Radio (SetRxBoostedGainMode b)) w)"

definition radio_implicitHeader :: "radio_env \<Rightarrow> nat \<Rightarrow> world \<Rightarrow> int \<times> world" where
  "radio_implicitHeader env len w =
     (implicitHeader_result env, emit (Radio (ImplicitHeader len)) w)"

definition radio_receive :: "radio_env \<Rightarrow> world \<Rightarrow> (int \<times> string) \<times> world" where
  "radio_receive env w =
     (receive_result env (rx_count w),
      (emit (Radio Receive) w)\<lparr>rx_count := Suc (rx_count w)\<rparr>)"

definition radio_getRSSI :: "radio_env \<Rightarrow> world \<Rightarrow> real \<times> world" where
  "radio_getRSSI env w = (getRSSI_result env (rx_count w), emit (Radio GetRSSI) w)"

definition radio_getSNR :: "radio_env \<Rightarrow> world \<Rightarrow> real \<times> world" where
  "radio_getSNR env w = (getSNR_result env (rx_count w), emit (Radio GetSNR) w)"

subsection \<open>\<open>while (true);\<close> (lines 80 and 94)\<close>

text \<open>
  The empty loop with a constant-true guard, run on \<open>fuel\<close> iterations: it has no exit,
  so running out of fuel (\<open>None\<close>) is all it can do.
\<close>

fun spin :: "nat \<Rightarrow> unit option" where
  "spin 0 = None"
| "spin (Suc fuel) = spin fuel"

subsection \<open>\<open>setup()\<close> (lines 54-96), here \<open>setup_fn\<close>\<close>

text \<open>
  \<open>Some ()\<close> means that \<open>setup\<close> returned; \<open>None\<close> that it is still inside one of its
  two halting loops. The statuses of \<open>forceLDRO\<close>, \<open>setRxBoostedGainMode\<close> and
  \<open>implicitHeader\<close> are returned by the library and dropped by the source (lines 85-87
  are expression statements), so they are bound to names nothing reads.
\<close>

definition setup_fn :: "radiolib_consts \<Rightarrow> radio_env \<Rightarrow> nat \<Rightarrow> world \<Rightarrow> unit option \<times> world" where
  "setup_fn K env fuel w0 =
     (let w = Serial2_begin 115200 w0;
          w = radio_setRfSwitchTable rfswitch_pins rfswitch_table w;
          w = Serial2_print_F ''[STM32WL] Initializing ... '' w;
          (state, w) = radio_begin env 915 10.4 12 6 18 10 8 1.6 False w
      in if state = RADIOLIB_ERR_NONE K then
           (let w = Serial2_println_F ''success!'' w;
                (state, w) = radio_setTCXO env 3.0 w;
                (dropped1, w) = radio_forceLDRO env True w;
                (dropped2, w) = radio_setRxBoostedGainMode env True w;
                (dropped3, w) = radio_implicitHeader env 8 w
            in if state = RADIOLIB_ERR_NONE K then
                 (Some (), Serial2_println_F ''success!'' w)
               else
                 (let w = Serial2_print_F ''failed, code '' w;
                      w = Serial2_println_int state w
                  in (spin fuel, w)))
         else
           (let w = Serial2_print_F ''failed, code '' w;
                w = Serial2_println_int state w
            in (spin fuel, w)))"

subsection \<open>\<open>loop()\<close> (lines 98-145)\<close>

definition TAB :: char where
  "TAB = CHR 0x09"

definition loop :: "radiolib_consts \<Rightarrow> radio_env \<Rightarrow> world \<Rightarrow> world" where
  "loop K env w0 =
     (let w = Serial2_print_F ''[STM32WL] Waiting for incoming transmission ... '' w0;
          ((state, str), w) = radio_receive env w
      in if state = RADIOLIB_ERR_NONE K then
           (let w = Serial2_println_F ''success!'' w;
                w = Serial2_print_F (''[STM32WL] Data:'' @ [TAB, TAB]) w;
                w = Serial2_println_String str w;
                w = Serial2_print_F (''[STM32WL] RSSI:'' @ [TAB, TAB]) w;
                (rssi, w) = radio_getRSSI env w;
                w = Serial2_print_float rssi w;
                w = Serial2_println_F '' dBm'' w;
                w = Serial2_print_F (''[STM32WL] SNR:'' @ [TAB, TAB]) w;
                (snr, w) = radio_getSNR env w;
                w = Serial2_print_float snr w
            in Serial2_println_F '' dB'' w)
         else if state = RADIOLIB_ERR_RX_TIMEOUT K then
           Serial2_println_F ''timeout!'' w
         else if state = RADIOLIB_ERR_CRC_MISMATCH K then
           Serial2_println_F ''CRC error!'' w
         else
           (let w = Serial2_print_F ''failed, code '' w
            in Serial2_println_int state w))"

subsection \<open>The Arduino runtime around the sketch\<close>

text \<open>
  The sketch has no caller of its own: it is run by the \<open>main\<close> of the Arduino core
  (platform code, outside the repository), which calls \<open>setup()\<close> once and then
  \<open>loop()\<close> in an endless \<open>for (;;)\<close>, each call returning before the next starts.
  \<open>loop_n\<close> is that endless loop run for \<open>n\<close> iterations.
\<close>

fun loop_n :: "radiolib_consts \<Rightarrow> radio_env \<Rightarrow> nat \<Rightarrow> world \<Rightarrow> world" where
  "loop_n K env 0 w = w"
| "loop_n K env (Suc n) w = loop_n K env n (loop K env w)"

text \<open>
  \<open>arduino_main\<close> gives the world reached after \<open>setup\<close> and, only if \<open>setup\<close>
  returned, \<open>n\<close> iterations of \<open>loop\<close>; \<open>fuel\<close> is what the halting loops of
  \<open>setup\<close> may burn.
\<close>

definition arduino_main :: "radiolib_consts \<Rightarrow> radio_env \<Rightarrow> nat \<Rightarrow> nat \<Rightarrow> world \<Rightarrow> world" where
  "arduino_main K env fuel n w0 =
     (case setup_fn K env fuel w0 of
        (None, w) \<Rightarrow> w
      | (Some u, w) \<Rightarrow> loop_n K env n w)"

subsection \<open>Observations on a trace\<close>

text \<open>
  The radio calls and the serial calls of a trace, each in program order, and the radio
  calls that write configuration (every one except \<open>receive\<close> and the two metric
  reads).
\<close>

fun radio_calls :: "event list \<Rightarrow> radio_call list" where
  "radio_calls [] = []"
| "radio_calls (Radio c # es) = c # radio_calls es"
| "radio_calls (Serial s # es) = radio_calls es"

fun serial_out :: "event list \<Rightarrow> serial_call list" where
  "serial_out [] = []"
| "serial_out (Radio c # es) = serial_out es"
| "serial_out (Serial s # es) = s # serial_out es"

fun is_config_call :: "radio_call \<Rightarrow> bool" where
  "is_config_call Receive = False"
| "is_config_call GetRSSI = False"
| "is_config_call GetSNR = False"
| "is_config_call c = True"

subsection \<open>Concrete inputs\<close>

text \<open>
  A choice of three distinct status values (those of RadioLib's \<open>TypeDef.h\<close>), used
  in the concrete instances below only, and an environment in which every
  configuration call succeeds, the first receive delivers \<open>HELLO\<close> and every later one
  times out.
\<close>

definition radiolib :: radiolib_consts where
  "radiolib = \<lparr>RADIOLIB_ERR_NONE = 0, RADIOLIB_ERR_RX_TIMEOUT = - 6,
                RADIOLIB_ERR_CRC_MISMATCH = - 7\<rparr>"

definition env_ok :: radio_env where
  "env_ok = \<lparr>begin_result = 0, setTCXO_result = 0, forceLDRO_result = 0,
              setRxBoostedGainMode_result = 0, implicitHeader_result = 0,
              receive_result = (\<lambda>k. if k = 0 then (0, ''HELLO'') else (- 6, [])),
              getRSSI_result = (\<lambda>k. - 80), getSNR_result = (\<lambda>k. 7)\<rparr>"

section \<open>Properties\<close>

subsection \<open>Auxiliary facts\<close>

lemmas prims = emit_def Serial2_begin_def Serial2_print_F_def Serial2_println_F_def
  Serial2_println_String_def Serial2_println_int_def Serial2_print_float_def
  radio_setRfSwitchTable_def radio_begin_def radio_setTCXO_def radio_forceLDRO_def
  radio_setRxBoostedGainMode_def radio_implicitHeader_def radio_receive_def
  radio_getRSSI_def radio_getSNR_def

lemma spin_None: "spin fuel = None"
  by (induction fuel) simp_all

lemma radio_calls_append: "radio_calls (xs @ ys) = radio_calls xs @ radio_calls ys"
  by (induction xs rule: radio_calls.induct) simp_all

lemma serial_out_append: "serial_out (xs @ ys) = serial_out xs @ serial_out ys"
  by (induction xs rule: serial_out.induct) simp_all

lemma setup_fn_begin_failed:
  assumes "begin_result env \<noteq> RADIOLIB_ERR_NONE K"
  shows "setup_fn K env fuel w =
           (None, w\<lparr>trace := trace w @
              [Serial (SerialBegin 115200),
               Radio (SetRfSwitchTable rfswitch_pins rfswitch_table),
               Serial (PrintF ''[STM32WL] Initializing ... ''),
               Radio (Begin 915 10.4 12 6 18 10 8 1.6 False),
               Serial (PrintF ''failed, code ''),
               Serial (PrintlnInt (begin_result env))]\<rparr>)"
  using assms by (simp add: setup_fn_def prims spin_None)

lemma setup_fn_tcxo_failed:
  assumes "begin_result env = RADIOLIB_ERR_NONE K"
    and "setTCXO_result env \<noteq> RADIOLIB_ERR_NONE K"
  shows "setup_fn K env fuel w =
           (None, w\<lparr>trace := trace w @
              [Serial (SerialBegin 115200),
               Radio (SetRfSwitchTable rfswitch_pins rfswitch_table),
               Serial (PrintF ''[STM32WL] Initializing ... ''),
               Radio (Begin 915 10.4 12 6 18 10 8 1.6 False),
               Serial (PrintlnF ''success!''),
               Radio (SetTCXO 3.0),
               Radio (ForceLDRO True),
               Radio (SetRxBoostedGainMode True),
               Radio (ImplicitHeader 8),
               Serial (PrintF ''failed, code ''),
               Serial (PrintlnInt (setTCXO_result env))]\<rparr>)"
  using assms by (simp add: setup_fn_def prims spin_None)

lemma setup_fn_succeeded:
  assumes "begin_result env = RADIOLIB_ERR_NONE K"
    and "setTCXO_result env = RADIOLIB_ERR_NONE K"
  shows "setup_fn K env fuel w =
           (Some (), w\<lparr>trace := trace w @
              [Serial (SerialBegin 115200),
               Radio (SetRfSwitchTable rfswitch_pins rfswitch_table),
               Serial (PrintF ''[STM32WL] Initializing ... ''),
               Radio (Begin 915 10.4 12 6 18 10 8 1.6 False),
               Serial (PrintlnF ''success!''),
               Radio (SetTCXO 3.0),
               Radio (ForceLDRO True),
               Radio (SetRxBoostedGainMode True),
               Radio (ImplicitHeader 8),
               Serial (PrintlnF ''success!'')]\<rparr>)"
  using assms by (simp add: setup_fn_def prims)

lemma loop_received:
  assumes "receive_result env (rx_count w) = (RADIOLIB_ERR_NONE K, str)"
  shows "loop K env w =
           w\<lparr>trace := trace w @
              [Serial (PrintF ''[STM32WL] Waiting for incoming transmission ... ''),
               Radio Receive,
               Serial (PrintlnF ''success!''),
               Serial (PrintF (''[STM32WL] Data:'' @ [TAB, TAB])),
               Serial (PrintlnString str),
               Serial (PrintF (''[STM32WL] RSSI:'' @ [TAB, TAB])),
               Radio GetRSSI,
               Serial (PrintFloat (getRSSI_result env (Suc (rx_count w)))),
               Serial (PrintlnF '' dBm''),
               Serial (PrintF (''[STM32WL] SNR:'' @ [TAB, TAB])),
               Radio GetSNR,
               Serial (PrintFloat (getSNR_result env (Suc (rx_count w)))),
               Serial (PrintlnF '' dB'')],
             rx_count := Suc (rx_count w)\<rparr>"
  using assms by (simp add: loop_def prims)

lemma loop_timed_out:
  assumes "receive_result env (rx_count w) = (RADIOLIB_ERR_RX_TIMEOUT K, str)"
    and "RADIOLIB_ERR_RX_TIMEOUT K \<noteq> RADIOLIB_ERR_NONE K"
  shows "loop K env w =
           w\<lparr>trace := trace w @
              [Serial (PrintF ''[STM32WL] Waiting for incoming transmission ... ''),
               Radio Receive,
               Serial (PrintlnF ''timeout!'')],
             rx_count := Suc (rx_count w)\<rparr>"
  using assms by (simp add: loop_def prims)

lemma loop_crc_mismatch:
  assumes "receive_result env (rx_count w) = (RADIOLIB_ERR_CRC_MISMATCH K, str)"
    and "RADIOLIB_ERR_CRC_MISMATCH K \<noteq> RADIOLIB_ERR_NONE K"
    and "RADIOLIB_ERR_CRC_MISMATCH K \<noteq> RADIOLIB_ERR_RX_TIMEOUT K"
  shows "loop K env w =
           w\<lparr>trace := trace w @
              [Serial (PrintF ''[STM32WL] Waiting for incoming transmission ... ''),
               Radio Receive,
               Serial (PrintlnF ''CRC error!'')],
             rx_count := Suc (rx_count w)\<rparr>"
  using assms by (simp add: loop_def prims)

lemma loop_other_error:
  assumes "receive_result env (rx_count w) = (code, str)"
    and "code \<noteq> RADIOLIB_ERR_NONE K"
    and "code \<noteq> RADIOLIB_ERR_RX_TIMEOUT K"
    and "code \<noteq> RADIOLIB_ERR_CRC_MISMATCH K"
  shows "loop K env w =
           w\<lparr>trace := trace w @
              [Serial (PrintF ''[STM32WL] Waiting for incoming transmission ... ''),
               Radio Receive,
               Serial (PrintF ''failed, code ''),
               Serial (PrintlnInt code)],
             rx_count := Suc (rx_count w)\<rparr>"
  using assms by (simp add: loop_def prims)

lemma loop_appends:
  "\<exists>es. trace (loop K env w) =
          trace w @ Serial (PrintF ''[STM32WL] Waiting for incoming transmission ... '')
            # Radio Receive # es
        \<and> set (radio_calls es) \<subseteq> {GetRSSI, GetSNR}"
proof (cases "receive_result env (rx_count w)")
  case (Pair code str)
  consider (ok) "code = RADIOLIB_ERR_NONE K"
    | (timeout) "code = RADIOLIB_ERR_RX_TIMEOUT K" "code \<noteq> RADIOLIB_ERR_NONE K"
    | (crc) "code = RADIOLIB_ERR_CRC_MISMATCH K" "code \<noteq> RADIOLIB_ERR_NONE K"
        "code \<noteq> RADIOLIB_ERR_RX_TIMEOUT K"
    | (other) "code \<noteq> RADIOLIB_ERR_NONE K" "code \<noteq> RADIOLIB_ERR_RX_TIMEOUT K"
        "code \<noteq> RADIOLIB_ERR_CRC_MISMATCH K"
    by blast
  then show ?thesis
  proof cases
    case ok
    with Pair show ?thesis by (simp add: loop_received)
  next
    case timeout
    with Pair show ?thesis by (simp add: loop_timed_out)
  next
    case crc
    with Pair show ?thesis by (simp add: loop_crc_mismatch)
  next
    case other
    with Pair show ?thesis by (simp add: loop_other_error)
  qed
qed

lemma loop_n_appends:
  "\<exists>es. trace (loop_n K env n w) = trace w @ es
        \<and> set (radio_calls es) \<subseteq> {Receive, GetRSSI, GetSNR}"
proof (induction n arbitrary: w)
  case 0
  show ?case by simp
next
  case (Suc n)
  obtain es1 where e1: "trace (loop K env w) =
        trace w @ Serial (PrintF ''[STM32WL] Waiting for incoming transmission ... '')
            # Radio Receive # es1" "set (radio_calls es1) \<subseteq> {GetRSSI, GetSNR}"
    using loop_appends by blast
  obtain es2 where e2: "trace (loop_n K env n (loop K env w)) = trace (loop K env w) @ es2"
    "set (radio_calls es2) \<subseteq> {Receive, GetRSSI, GetSNR}"
    using Suc.IH by blast
  let ?es = "Serial (PrintF ''[STM32WL] Waiting for incoming transmission ... '')
            # Radio Receive # es1 @ es2"
  have "trace (loop_n K env (Suc n) w) = trace w @ ?es"
    using e1(1) e2(1) by simp
  moreover have "set (radio_calls ?es) \<subseteq> {Receive, GetRSSI, GetSNR}"
    using e1(2) e2(2) by (auto simp: radio_calls_append)
  ultimately show ?case by blast
qed

lemma trace_boot: "trace boot = []"
  by (simp add: boot_def)

lemma rx_count_boot: "rx_count boot = 0"
  by (simp add: boot_def)

lemma arduino_main_halted:
  assumes "setup_fn K env fuel w0 = (None, w)"
  shows "arduino_main K env fuel n w0 = w"
  using assms by (simp add: arduino_main_def)

lemma arduino_main_running:
  assumes "setup_fn K env fuel w0 = (Some u, w)"
  shows "arduino_main K env fuel n w0 = loop_n K env n w"
  using assms by (simp add: arduino_main_def)

lemma setup_fn_ignores_later_statuses:
  "setup_fn K (env\<lparr>forceLDRO_result := a, setRxBoostedGainMode_result := b,
                   implicitHeader_result := c\<rparr>) fuel w = setup_fn K env fuel w"
  by (simp add: setup_fn_def prims Let_def)

lemma loop_ignores_later_statuses:
  "loop K (env\<lparr>forceLDRO_result := a, setRxBoostedGainMode_result := b,
               implicitHeader_result := c\<rparr>) w = loop K env w"
  by (simp add: loop_def prims Let_def split_def)

lemma loop_n_ignores_later_statuses:
  "loop_n K (env\<lparr>forceLDRO_result := a, setRxBoostedGainMode_result := b,
                 implicitHeader_result := c\<rparr>) n w = loop_n K env n w"
  by (induction n arbitrary: w) (simp_all add: loop_ignores_later_statuses)

lemma no_config_call_among_reads:
  assumes "set cs \<subseteq> {Receive, GetRSSI, GetSNR}"
  shows "filter is_config_call cs = []"
  using assms by (induction cs) auto

lemma loop_n_config_calls:
  "filter is_config_call (radio_calls (trace (loop_n K env n w))) =
   filter is_config_call (radio_calls (trace w))"
proof -
  obtain es where "trace (loop_n K env n w) = trace w @ es"
    and "set (radio_calls es) \<subseteq> {Receive, GetRSSI, GetSNR}"
    using loop_n_appends by blast
  then show ?thesis
    by (simp add: radio_calls_append no_config_call_among_reads)
qed

lemma next_iteration_begins:
  assumes "trace (loop K env w) = trace w @ reported"
  shows "\<exists>es. trace (loop_n K env (Suc (Suc n)) w) =
           trace w @ reported @
             [Serial (PrintF ''[STM32WL] Waiting for incoming transmission ... ''),
              Radio Receive] @ es"
proof -
  obtain es1 where e1: "trace (loop K env (loop K env w)) =
      trace (loop K env w) @ Serial (PrintF ''[STM32WL] Waiting for incoming transmission ... '')
        # Radio Receive # es1"
    using loop_appends by blast
  obtain es2 where e2: "trace (loop_n K env n (loop K env (loop K env w))) =
      trace (loop K env (loop K env w)) @ es2"
    using loop_n_appends by blast
  have "trace (loop_n K env (Suc (Suc n)) w) =
           trace w @ reported @
             [Serial (PrintF ''[STM32WL] Waiting for incoming transmission ... ''),
              Radio Receive] @ (es1 @ es2)"
    using assms e1 e2 by simp
  then show ?thesis by blast
qed

subsection \<open>Failure of the primary initialisation\<close>

text \<open>
  Claim C1. If \<open>radio.begin\<close> returns any status other than \<open>RADIOLIB_ERR_NONE\<close>,
  the sketch prints \<open>failed, code\<close> followed by that status and then stays in the
  halting loop of line 80: \<open>setup\<close> returns for no amount of fuel, the serial output
  of the whole run ends with the failure line however many iterations of \<open>loop\<close> the
  runtime would grant, and \<open>receive\<close> is never called.
\<close>

theorem init_failure_is_fatal:
  assumes "begin_result env \<noteq> RADIOLIB_ERR_NONE K"
  shows "fst (setup_fn K env fuel boot) = None
       \<and> serial_out (trace (arduino_main K env fuel n boot)) =
           [SerialBegin 115200,
            PrintF ''[STM32WL] Initializing ... '',
            PrintF ''failed, code '',
            PrintlnInt (begin_result env)]
       \<and> Radio Receive \<notin> set (trace (arduino_main K env fuel n boot))"
proof -
  note halted = setup_fn_begin_failed [OF assms, of fuel boot]
  have "fst (setup_fn K env fuel boot) = None"
    by (simp add: halted)
  moreover have "serial_out (trace (arduino_main K env fuel n boot)) =
           [SerialBegin 115200,
            PrintF ''[STM32WL] Initializing ... '',
            PrintF ''failed, code '',
            PrintlnInt (begin_result env)]"
    by (simp add: arduino_main_halted [OF halted] trace_boot)
  moreover have "Radio Receive \<notin> set (trace (arduino_main K env fuel n boot))"
    by (simp add: arduino_main_halted [OF halted] trace_boot)
  ultimately show ?thesis by blast
qed

theorem init_failure_is_fatal_witness:
  "begin_result (env_ok\<lparr>begin_result := - 2\<rparr>) \<noteq> RADIOLIB_ERR_NONE radiolib
   \<and> fst (setup_fn radiolib (env_ok\<lparr>begin_result := - 2\<rparr>) 4 boot) = None
   \<and> serial_out (trace (arduino_main radiolib (env_ok\<lparr>begin_result := - 2\<rparr>) 4 3 boot)) =
       [SerialBegin 115200,
        PrintF ''[STM32WL] Initializing ... '',
        PrintF ''failed, code '',
        PrintlnInt (- 2)]
   \<and> Radio Receive \<notin> set (trace (arduino_main radiolib (env_ok\<lparr>begin_result := - 2\<rparr>) 4 3 boot))"
proof -
  have h: "begin_result (env_ok\<lparr>begin_result := - 2\<rparr>) \<noteq> RADIOLIB_ERR_NONE radiolib"
    by (simp add: radiolib_def)
  show ?thesis
    using h init_failure_is_fatal [OF h, of 4 3] by simp
qed

subsection \<open>Failure of the secondary tuning\<close>

text \<open>
  Claim C2 as stated (a failing tuning status is reported and the sketch goes on to the
  receive loop) does not hold: with \<open>begin\<close> succeeding and \<open>setTCXO\<close> returning
  \<open>-1\<close>, \<open>setup\<close> does not return and a run granted three iterations of \<open>loop\<close>
  ends at the failure line, without a single \<open>receive\<close>.
\<close>

theorem tuning_failure_halts_counterexample:
  "begin_result (env_ok\<lparr>setTCXO_result := - 1\<rparr>) = RADIOLIB_ERR_NONE radiolib
   \<and> setTCXO_result (env_ok\<lparr>setTCXO_result := - 1\<rparr>) \<noteq> RADIOLIB_ERR_NONE radiolib
   \<and> fst (setup_fn radiolib (env_ok\<lparr>setTCXO_result := - 1\<rparr>) 5 boot) = None
   \<and> arduino_main radiolib (env_ok\<lparr>setTCXO_result := - 1\<rparr>) 5 3 boot =
       \<lparr>trace =
          [Serial (SerialBegin 115200),
           Radio (SetRfSwitchTable rfswitch_pins rfswitch_table),
           Serial (PrintF ''[STM32WL] Initializing ... ''),
           Radio (Begin 915 10.4 12 6 18 10 8 1.6 False),
           Serial (PrintlnF ''success!''),
           Radio (SetTCXO 3.0),
           Radio (ForceLDRO True),
           Radio (SetRxBoostedGainMode True),
           Radio (ImplicitHeader 8),
           Serial (PrintF ''failed, code ''),
           Serial (PrintlnInt (- 1))],
        rx_count = 0\<rparr>"
proof -
  have b: "begin_result (env_ok\<lparr>setTCXO_result := - 1\<rparr>) = RADIOLIB_ERR_NONE radiolib"
    by (simp add: radiolib_def env_ok_def)
  have t: "setTCXO_result (env_ok\<lparr>setTCXO_result := - 1\<rparr>) \<noteq> RADIOLIB_ERR_NONE radiolib"
    by (simp add: radiolib_def)
  note halted = setup_fn_tcxo_failed [OF b t, of 5 boot]
  show ?thesis
    using b t by (simp add: halted arduino_main_halted [OF halted] trace_boot rx_count_boot
        world.equality)
qed

text \<open>
  Claim C2, amended. A failure status of the TCXO-voltage call is reported
  (\<open>failed, code\<close> and the status) and is fatal: the sketch stays in the halting loop
  of line 94 and the receive loop is never entered.
\<close>

theorem tcxo_failure_is_fatal:
  assumes "begin_result env = RADIOLIB_ERR_NONE K"
    and "setTCXO_result env \<noteq> RADIOLIB_ERR_NONE K"
  shows "fst (setup_fn K env fuel boot) = None
       \<and> serial_out (trace (arduino_main K env fuel n boot)) =
           [SerialBegin 115200,
            PrintF ''[STM32WL] Initializing ... '',
            PrintlnF ''success!'',
            PrintF ''failed, code '',
            PrintlnInt (setTCXO_result env)]
       \<and> Radio Receive \<notin> set (trace (arduino_main K env fuel n boot))"
proof -
  note halted = setup_fn_tcxo_failed [OF assms, of fuel boot]
  have "fst (setup_fn K env fuel boot) = None"
    by (simp add: halted)
  moreover have "serial_out (trace (arduino_main K env fuel n boot)) =
           [SerialBegin 115200,
            PrintF ''[STM32WL] Initializing ... '',
            PrintlnF ''success!'',
            PrintF ''failed, code '',
            PrintlnInt (setTCXO_result env)]"
    by (simp add: arduino_main_halted [OF halted] trace_boot)
  moreover have "Radio Receive \<notin> set (trace (arduino_main K env fuel n boot))"
    by (simp add: arduino_main_halted [OF halted] trace_boot)
  ultimately show ?thesis by blast
qed

theorem tcxo_failure_is_fatal_witness:
  "begin_result (env_ok\<lparr>setTCXO_result := - 1\<rparr>) = RADIOLIB_ERR_NONE radiolib
   \<and> setTCXO_result (env_ok\<lparr>setTCXO_result := - 1\<rparr>) \<noteq> RADIOLIB_ERR_NONE radiolib
   \<and> fst (setup_fn radiolib (env_ok\<lparr>setTCXO_result := - 1\<rparr>) 2 boot) = None
   \<and> serial_out (trace (arduino_main radiolib (env_ok\<lparr>setTCXO_result := - 1\<rparr>) 2 6 boot)) =
       [SerialBegin 115200,
        PrintF ''[STM32WL] Initializing ... '',
        PrintlnF ''success!'',
        PrintF ''failed, code '',
        PrintlnInt (- 1)]
   \<and> Radio Receive \<notin> set (trace (arduino_main radiolib (env_ok\<lparr>setTCXO_result := - 1\<rparr>) 2 6 boot))"
proof -
  have b: "begin_result (env_ok\<lparr>setTCXO_result := - 1\<rparr>) = RADIOLIB_ERR_NONE radiolib"
    by (simp add: radiolib_def env_ok_def)
  have t: "setTCXO_result (env_ok\<lparr>setTCXO_result := - 1\<rparr>) \<noteq> RADIOLIB_ERR_NONE radiolib"
    by (simp add: radiolib_def)
  show ?thesis
    using b t tcxo_failure_is_fatal [OF b t, of 2 6] by simp
qed

subsection \<open>Which tuning status is checked\<close>

text \<open>
  Claim C3 as stated (only the status of the last tuning call is checked, and a failure
  of an earlier call changes nothing) does not hold. Two environments that differ only
  in the status of \<open>setTCXO\<close>, the first tuning call, while the last one
  (\<open>implicitHeader\<close>) succeeds in both, give different output and different control
  flow; and a failing status of the last call leaves \<open>setup\<close> exactly as it is when
  everything succeeds.
\<close>

theorem first_tuning_status_counterexample:
  "implicitHeader_result (env_ok\<lparr>setTCXO_result := - 1\<rparr>) = RADIOLIB_ERR_NONE radiolib
   \<and> fst (setup_fn radiolib env_ok 1 boot) = Some ()
   \<and> fst (setup_fn radiolib (env_ok\<lparr>setTCXO_result := - 1\<rparr>) 1 boot) = None
   \<and> serial_out (trace (snd (setup_fn radiolib env_ok 1 boot))) =
       [SerialBegin 115200, PrintF ''[STM32WL] Initializing ... '',
        PrintlnF ''success!'', PrintlnF ''success!'']
   \<and> serial_out (trace (snd (setup_fn radiolib (env_ok\<lparr>setTCXO_result := - 1\<rparr>) 1 boot))) =
       [SerialBegin 115200, PrintF ''[STM32WL] Initializing ... '',
        PrintlnF ''success!'', PrintF ''failed, code '', PrintlnInt (- 1)]
   \<and> implicitHeader_result (env_ok\<lparr>implicitHeader_result := - 1\<rparr>) \<noteq> RADIOLIB_ERR_NONE radiolib
   \<and> setup_fn radiolib (env_ok\<lparr>implicitHeader_result := - 1\<rparr>) 1 boot =
       setup_fn radiolib env_ok 1 boot"
proof -
  have b: "begin_result env_ok = RADIOLIB_ERR_NONE radiolib"
    and t: "setTCXO_result env_ok = RADIOLIB_ERR_NONE radiolib"
    by (simp_all add: radiolib_def env_ok_def)
  have b': "begin_result (env_ok\<lparr>setTCXO_result := - 1\<rparr>) = RADIOLIB_ERR_NONE radiolib"
    and t': "setTCXO_result (env_ok\<lparr>setTCXO_result := - 1\<rparr>) \<noteq> RADIOLIB_ERR_NONE radiolib"
    by (simp_all add: radiolib_def env_ok_def)
  have b'': "begin_result (env_ok\<lparr>implicitHeader_result := - 1\<rparr>) = RADIOLIB_ERR_NONE radiolib"
    and t'': "setTCXO_result (env_ok\<lparr>implicitHeader_result := - 1\<rparr>) = RADIOLIB_ERR_NONE radiolib"
    by (simp_all add: radiolib_def env_ok_def)
  have i: "implicitHeader_result (env_ok\<lparr>setTCXO_result := - 1\<rparr>) = RADIOLIB_ERR_NONE radiolib"
    and i'': "implicitHeader_result (env_ok\<lparr>implicitHeader_result := - 1\<rparr>) \<noteq> RADIOLIB_ERR_NONE radiolib"
    by (simp_all add: radiolib_def env_ok_def)
  show ?thesis
    using i i''
    by (simp add: setup_fn_succeeded [OF b t] setup_fn_tcxo_failed [OF b' t']
        setup_fn_succeeded [OF b'' t''] trace_boot)
qed

text \<open>
  Claim C3, amended. The status variable is assigned by the first tuning call only
  (line 84): after a successful \<open>begin\<close>, \<open>setup\<close> returns exactly when
  \<open>setTCXO\<close> reported success, and the statuses returned by the three later calls
  (\<open>forceLDRO\<close>, \<open>setRxBoostedGainMode\<close>, \<open>implicitHeader\<close>) have no effect on
  the output or the control flow of \<open>setup\<close> or of the whole run.
\<close>

theorem only_first_tuning_status_checked:
  "(begin_result env = RADIOLIB_ERR_NONE K \<longrightarrow>
      (fst (setup_fn K env fuel w) = Some () \<longleftrightarrow> setTCXO_result env = RADIOLIB_ERR_NONE K))
   \<and> setup_fn K (env\<lparr>forceLDRO_result := a, setRxBoostedGainMode_result := b,
                     implicitHeader_result := c\<rparr>) fuel w = setup_fn K env fuel w
   \<and> arduino_main K (env\<lparr>forceLDRO_result := a, setRxBoostedGainMode_result := b,
                         implicitHeader_result := c\<rparr>) fuel n w = arduino_main K env fuel n w"
proof -
  have "fst (setup_fn K env fuel w) = Some () \<longleftrightarrow> setTCXO_result env = RADIOLIB_ERR_NONE K"
    if ok: "begin_result env = RADIOLIB_ERR_NONE K"
  proof (cases "setTCXO_result env = RADIOLIB_ERR_NONE K")
    case True
    then show ?thesis by (simp add: setup_fn_succeeded [OF ok])
  next
    case False
    then show ?thesis by (simp add: setup_fn_tcxo_failed [OF ok])
  qed
  moreover have "arduino_main K (env\<lparr>forceLDRO_result := a, setRxBoostedGainMode_result := b,
      implicitHeader_result := c\<rparr>) fuel n w = arduino_main K env fuel n w"
    by (simp add: arduino_main_def setup_fn_ignores_later_statuses
        loop_n_ignores_later_statuses split: prod.splits option.splits)
  ultimately show ?thesis
    using setup_fn_ignores_later_statuses by blast
qed

theorem only_first_tuning_status_checked_witness:
  "begin_result env_ok = RADIOLIB_ERR_NONE radiolib
   \<and> setTCXO_result env_ok = RADIOLIB_ERR_NONE radiolib
   \<and> fst (setup_fn radiolib env_ok 1 boot) = Some ()
   \<and> setup_fn radiolib (env_ok\<lparr>forceLDRO_result := - 20, setRxBoostedGainMode_result := - 2,
                     implicitHeader_result := - 1\<rparr>) 1 boot = setup_fn radiolib env_ok 1 boot
   \<and> arduino_main radiolib (env_ok\<lparr>forceLDRO_result := - 20, setRxBoostedGainMode_result := - 2,
                     implicitHeader_result := - 1\<rparr>) 1 2 boot = arduino_main radiolib env_ok 1 2 boot"
proof -
  have b: "begin_result env_ok = RADIOLIB_ERR_NONE radiolib"
    and t: "setTCXO_result env_ok = RADIOLIB_ERR_NONE radiolib"
    by (simp_all add: radiolib_def env_ok_def)
  show ?thesis
    using b t only_first_tuning_status_checked [where env = env_ok and K = radiolib
        and fuel = 1 and w = boot and a = "- 20" and b = "- 2" and c = "- 1" and n = 2]
    by simp
qed

subsection \<open>A failure that is not reported\<close>

text \<open>
  Claim C4 (no failure status of any called operation goes unreported) at the input
  where \<open>forceLDRO\<close> returns \<open>-20\<close> and every other call succeeds: \<open>setup\<close>
  prints \<open>success!\<close> twice and returns, and no line carries the failing status.
\<close>

theorem ldro_failure_goes_unreported:
  "forceLDRO_result (env_ok\<lparr>forceLDRO_result := - 20\<rparr>) \<noteq> RADIOLIB_ERR_NONE radiolib
   \<and> setup_fn radiolib (env_ok\<lparr>forceLDRO_result := - 20\<rparr>) 1 boot =
       (Some (),
        \<lparr>trace =
           [Serial (SerialBegin 115200),
            Radio (SetRfSwitchTable rfswitch_pins rfswitch_table),
            Serial (PrintF ''[STM32WL] Initializing ... ''),
            Radio (Begin 915 10.4 12 6 18 10 8 1.6 False),
            Serial (PrintlnF ''success!''),
            Radio (SetTCXO 3.0),
            Radio (ForceLDRO True),
            Radio (SetRxBoostedGainMode True),
            Radio (ImplicitHeader 8),
            Serial (PrintlnF ''success!'')],
         rx_count = 0\<rparr>)"
proof -
  have b: "begin_result (env_ok\<lparr>forceLDRO_result := - 20\<rparr>) = RADIOLIB_ERR_NONE radiolib"
    and t: "setTCXO_result (env_ok\<lparr>forceLDRO_result := - 20\<rparr>) = RADIOLIB_ERR_NONE radiolib"
    by (simp_all add: radiolib_def env_ok_def)
  have f: "forceLDRO_result (env_ok\<lparr>forceLDRO_result := - 20\<rparr>) \<noteq> RADIOLIB_ERR_NONE radiolib"
    by (simp add: radiolib_def)
  show ?thesis
    using f by (simp add: setup_fn_succeeded [OF b t] trace_boot rx_count_boot world.equality)
qed

subsection \<open>Order of the initialisation steps\<close>

text \<open>
  Claim C5. The radio calls of \<open>setup\<close>, in program order, are: the RF switch table,
  then \<open>begin\<close> with the base parameters, and, only when \<open>begin\<close> succeeded, the
  four tuning calls (TCXO voltage, forced LDRO, boosted gain, implicit-header length).
  In the whole run, however many iterations of \<open>loop\<close> follow, the configuration calls
  are exactly those of \<open>setup\<close>, so each tuning call is made once.
\<close>

theorem setup_call_order:
  "radio_calls (trace (snd (setup_fn K env fuel boot))) =
     (if begin_result env = RADIOLIB_ERR_NONE K
      then [SetRfSwitchTable rfswitch_pins rfswitch_table,
            Begin 915 10.4 12 6 18 10 8 1.6 False,
            SetTCXO 3.0,
            ForceLDRO True,
            SetRxBoostedGainMode True,
            ImplicitHeader 8]
      else [SetRfSwitchTable rfswitch_pins rfswitch_table,
            Begin 915 10.4 12 6 18 10 8 1.6 False])
   \<and> filter is_config_call (radio_calls (trace (arduino_main K env fuel n boot))) =
       radio_calls (trace (snd (setup_fn K env fuel boot)))"
proof (cases "begin_result env = RADIOLIB_ERR_NONE K")
  case False
  note halted = setup_fn_begin_failed [OF False, of fuel boot]
  show ?thesis
    using False by (simp add: halted arduino_main_halted [OF halted] trace_boot)
next
  case True
  show ?thesis
  proof (cases "setTCXO_result env = RADIOLIB_ERR_NONE K")
    case False
    note halted = setup_fn_tcxo_failed [OF True False, of fuel boot]
    show ?thesis
      using True by (simp add: halted arduino_main_halted [OF halted] trace_boot)
  next
    case tcxo: True
    note running = setup_fn_succeeded [OF True tcxo, of fuel boot]
    show ?thesis
      using True
      by (simp add: running arduino_main_running [OF running] loop_n_config_calls trace_boot)
  qed
qed

theorem setup_call_order_witness:
  "radio_calls (trace (snd (setup_fn radiolib env_ok 1 boot))) =
     [SetRfSwitchTable rfswitch_pins rfswitch_table,
      Begin 915 10.4 12 6 18 10 8 1.6 False,
      SetTCXO 3.0,
      ForceLDRO True,
      SetRxBoostedGainMode True,
      ImplicitHeader 8]
   \<and> filter is_config_call (radio_calls (trace (arduino_main radiolib env_ok 1 5 boot))) =
       radio_calls (trace (snd (setup_fn radiolib env_ok 1 boot)))"
proof -
  have b: "begin_result env_ok = RADIOLIB_ERR_NONE radiolib"
    by (simp add: radiolib_def env_ok_def)
  show ?thesis
    using b setup_call_order [of radiolib env_ok 1 5] by simp
qed

subsection \<open>A successful reception\<close>

text \<open>
  Claim C6. With the parameters of line 63-73 and a first receive that succeeds with
  payload \<open>HELLO\<close>, the run of \<open>setup\<close> and one iteration of \<open>loop\<close> is the
  trace below: \<open>success!\<close>, the data label followed by \<open>HELLO\<close>, the RSSI value and
  the SNR value, in that order. The label and the payload are separated by two tab
  characters.
\<close>

theorem hello_scenario:
  assumes "begin_result env = RADIOLIB_ERR_NONE K"
    and "setTCXO_result env = RADIOLIB_ERR_NONE K"
    and "receive_result env 0 = (RADIOLIB_ERR_NONE K, ''HELLO'')"
  shows "trace (arduino_main K env fuel 1 boot) =
           [Serial (SerialBegin 115200),
            Radio (SetRfSwitchTable rfswitch_pins rfswitch_table),
            Serial (PrintF ''[STM32WL] Initializing ... ''),
            Radio (Begin 915 10.4 12 6 18 10 8 1.6 False),
            Serial (PrintlnF ''success!''),
            Radio (SetTCXO 3.0),
            Radio (ForceLDRO True),
            Radio (SetRxBoostedGainMode True),
            Radio (ImplicitHeader 8),
            Serial (PrintlnF ''success!''),
            Serial (PrintF ''[STM32WL] Waiting for incoming transmission ... ''),
            Radio Receive,
            Serial (PrintlnF ''success!''),
            Serial (PrintF (''[STM32WL] Data:'' @ [TAB, TAB])),
            Serial (PrintlnString ''HELLO''),
            Serial (PrintF (''[STM32WL] RSSI:'' @ [TAB, TAB])),
            Radio GetRSSI,
            Serial (PrintFloat (getRSSI_result env 1)),
            Serial (PrintlnF '' dBm''),
            Serial (PrintF (''[STM32WL] SNR:'' @ [TAB, TAB])),
            Radio GetSNR,
            Serial (PrintFloat (getSNR_result env 1)),
            Serial (PrintlnF '' dB'')]"
proof -
  note running = setup_fn_succeeded [OF assms(1,2), of fuel boot]
  let ?w = "snd (setup_fn K env fuel boot)"
  have rx: "receive_result env (rx_count ?w) = (RADIOLIB_ERR_NONE K, ''HELLO'')"
    using assms(3) by (simp add: running rx_count_boot)
  have "arduino_main K env fuel 1 boot = loop K env ?w"
    by (simp add: arduino_main_running [OF running] running)
  then show ?thesis
    by (simp add: loop_received [OF rx]) (simp add: running trace_boot rx_count_boot)
qed

theorem hello_scenario_witness:
  "begin_result env_ok = RADIOLIB_ERR_NONE radiolib
   \<and> setTCXO_result env_ok = RADIOLIB_ERR_NONE radiolib
   \<and> receive_result env_ok 0 = (RADIOLIB_ERR_NONE radiolib, ''HELLO'')
   \<and> trace (arduino_main radiolib env_ok 3 1 boot) =
           [Serial (SerialBegin 115200),
            Radio (SetRfSwitchTable rfswitch_pins rfswitch_table),
            Serial (PrintF ''[STM32WL] Initializing ... ''),
            Radio (Begin 915 10.4 12 6 18 10 8 1.6 False),
            Serial (PrintlnF ''success!''),
            Radio (SetTCXO 3.0),
            Radio (ForceLDRO True),
            Radio (SetRxBoostedGainMode True),
            Radio (ImplicitHeader 8),
            Serial (PrintlnF ''success!''),
            Serial (PrintF ''[STM32WL] Waiting for incoming transmission ... ''),
            Radio Receive,
            Serial (PrintlnF ''success!''),
            Serial (PrintF (''[STM32WL] Data:'' @ [TAB, TAB])),
            Serial (PrintlnString ''HELLO''),
            Serial (PrintF (''[STM32WL] RSSI:'' @ [TAB, TAB])),
            Radio GetRSSI,
            Serial (PrintFloat (- 80)),
            Serial (PrintlnF '' dBm''),
            Serial (PrintF (''[STM32WL] SNR:'' @ [TAB, TAB])),
            Radio GetSNR,
            Serial (PrintFloat 7),
            Serial (PrintlnF '' dB'')]"
proof -
  have b: "begin_result env_ok = RADIOLIB_ERR_NONE radiolib"
    and t: "setTCXO_result env_ok = RADIOLIB_ERR_NONE radiolib"
    and r: "receive_result env_ok 0 = (RADIOLIB_ERR_NONE radiolib, ''HELLO'')"
    by (simp_all add: radiolib_def env_ok_def)
  have m: "getRSSI_result env_ok k = - 80" "getSNR_result env_ok k = 7" for k
    by (simp_all add: env_ok_def)
  show ?thesis
    using b t r hello_scenario [OF b t r, of 3] by (simp add: m)
qed

subsection \<open>Receive outcomes other than success\<close>

text \<open>
  Claim C7. When \<open>receive\<close> returns \<open>RADIOLIB_ERR_RX_TIMEOUT\<close>, the iteration
  prints the waiting prompt and exactly one \<open>timeout!\<close> line, no payload and no metric
  (the metric accessors are not even called), and \<open>loop\<close> returns; in any longer run
  the next iteration's prompt and receive call follow the report directly.
\<close>

theorem timeout_is_reported_and_loop_goes_on:
  assumes "RADIOLIB_ERR_RX_TIMEOUT K \<noteq> RADIOLIB_ERR_NONE K"
    and "receive_result env (rx_count w) = (RADIOLIB_ERR_RX_TIMEOUT K, str)"
  shows "loop K env w =
           w\<lparr>trace := trace w @
              [Serial (PrintF ''[STM32WL] Waiting for incoming transmission ... ''),
               Radio Receive,
               Serial (PrintlnF ''timeout!'')],
             rx_count := Suc (rx_count w)\<rparr>
       \<and> (\<exists>es. trace (loop_n K env (Suc (Suc n)) w) =
             trace w @
               [Serial (PrintF ''[STM32WL] Waiting for incoming transmission ... ''),
                Radio Receive,
                Serial (PrintlnF ''timeout!'')] @
               [Serial (PrintF ''[STM32WL] Waiting for incoming transmission ... ''),
                Radio Receive] @ es)"
proof -
  note this_iteration = loop_timed_out [OF assms(2) assms(1)]
  have "trace (loop K env w) = trace w @
              [Serial (PrintF ''[STM32WL] Waiting for incoming transmission ... ''),
               Radio Receive,
               Serial (PrintlnF ''timeout!'')]"
    by (simp add: this_iteration)
  from next_iteration_begins [OF this] this_iteration show ?thesis
    by blast
qed

theorem timeout_is_reported_and_loop_goes_on_witness:
  "RADIOLIB_ERR_RX_TIMEOUT radiolib \<noteq> RADIOLIB_ERR_NONE radiolib
   \<and> receive_result (env_ok\<lparr>receive_result := \<lambda>k. (- 6, [])\<rparr>) (rx_count boot) =
       (RADIOLIB_ERR_RX_TIMEOUT radiolib, [])
   \<and> loop radiolib (env_ok\<lparr>receive_result := \<lambda>k. (- 6, [])\<rparr>) boot =
       \<lparr>trace =
          [Serial (PrintF ''[STM32WL] Waiting for incoming transmission ... ''),
           Radio Receive,
           Serial (PrintlnF ''timeout!'')],
        rx_count = 1\<rparr>
   \<and> (\<exists>es. trace (loop_n radiolib (env_ok\<lparr>receive_result := \<lambda>k. (- 6, [])\<rparr>) 2 boot) =
          [Serial (PrintF ''[STM32WL] Waiting for incoming transmission ... ''),
           Radio Receive,
           Serial (PrintlnF ''timeout!''),
           Serial (PrintF ''[STM32WL] Waiting for incoming transmission ... ''),
           Radio Receive] @ es)"
proof -
  have d: "RADIOLIB_ERR_RX_TIMEOUT radiolib \<noteq> RADIOLIB_ERR_NONE radiolib"
    by (simp add: radiolib_def)
  have r: "receive_result (env_ok\<lparr>receive_result := \<lambda>k. (- 6, [])\<rparr>) (rx_count boot) =
       (RADIOLIB_ERR_RX_TIMEOUT radiolib, [])"
    by (simp add: radiolib_def)
  note inst = timeout_is_reported_and_loop_goes_on [OF d r, of 0]
  have c1: "loop radiolib (env_ok\<lparr>receive_result := \<lambda>k. (- 6, [])\<rparr>) boot =
       \<lparr>trace =
          [Serial (PrintF ''[STM32WL] Waiting for incoming transmission ... ''),
           Radio Receive,
           Serial (PrintlnF ''timeout!'')],
        rx_count = 1\<rparr>"
    using inst [THEN conjunct1] by (simp add: boot_def)
  have c2: "\<exists>es. trace (loop_n radiolib (env_ok\<lparr>receive_result := \<lambda>k. (- 6, [])\<rparr>) 2 boot) =
          [Serial (PrintF ''[STM32WL] Waiting for incoming transmission ... ''),
           Radio Receive,
           Serial (PrintlnF ''timeout!''),
           Serial (PrintF ''[STM32WL] Waiting for incoming transmission ... ''),
           Radio Receive] @ es"
    using inst [THEN conjunct2] by (simp add: trace_boot numeral_2_eq_2)
  show ?thesis
    using d r c1 c2 by blast
qed

text \<open>
  Claim C8. When \<open>receive\<close> returns \<open>RADIOLIB_ERR_CRC_MISMATCH\<close>, what the
  iteration does is the same whatever \<open>receive\<close> left in \<open>str\<close>: two environments
  that report the mismatch with payloads \<open>payload\<close> and \<open>payload'\<close> lead to the same
  world, and the serial output of the iteration is the prompt and the fixed line
  \<open>CRC error!\<close>; \<open>str\<close> is never printed.
\<close>

theorem crc_mismatch_output_is_fixed:
  assumes "RADIOLIB_ERR_CRC_MISMATCH K \<noteq> RADIOLIB_ERR_NONE K"
    and "RADIOLIB_ERR_CRC_MISMATCH K \<noteq> RADIOLIB_ERR_RX_TIMEOUT K"
    and "receive_result env (rx_count w) = (RADIOLIB_ERR_CRC_MISMATCH K, payload)"
    and "receive_result env' (rx_count w) = (RADIOLIB_ERR_CRC_MISMATCH K, payload')"
  shows "loop K env w =
           w\<lparr>trace := trace w @
              [Serial (PrintF ''[STM32WL] Waiting for incoming transmission ... ''),
               Radio Receive,
               Serial (PrintlnF ''CRC error!'')],
             rx_count := Suc (rx_count w)\<rparr>
       \<and> loop K env' w = loop K env w
       \<and> serial_out (drop (length (trace w)) (trace (loop K env w))) =
           [PrintF ''[STM32WL] Waiting for incoming transmission ... '',
            PrintlnF ''CRC error!'']"
proof -
  note first = loop_crc_mismatch [OF assms(3) assms(1) assms(2)]
  note second = loop_crc_mismatch [OF assms(4) assms(1) assms(2)]
  have "loop K env' w = loop K env w"
    by (simp add: first second)
  moreover have "serial_out (drop (length (trace w)) (trace (loop K env w))) =
           [PrintF ''[STM32WL] Waiting for incoming transmission ... '',
            PrintlnF ''CRC error!'']"
    by (simp add: first)
  ultimately show ?thesis
    using first by blast
qed

theorem crc_mismatch_output_is_fixed_witness:
  "RADIOLIB_ERR_CRC_MISMATCH radiolib \<noteq> RADIOLIB_ERR_NONE radiolib
   \<and> RADIOLIB_ERR_CRC_MISMATCH radiolib \<noteq> RADIOLIB_ERR_RX_TIMEOUT radiolib
   \<and> receive_result (env_ok\<lparr>receive_result := \<lambda>k. (- 7, ''SECRET'')\<rparr>) (rx_count boot) =
       (RADIOLIB_ERR_CRC_MISMATCH radiolib, ''SECRET'')
   \<and> receive_result (env_ok\<lparr>receive_result := \<lambda>k. (- 7, ''other'')\<rparr>) (rx_count boot) =
       (RADIOLIB_ERR_CRC_MISMATCH radiolib, ''other'')
   \<and> loop radiolib (env_ok\<lparr>receive_result := \<lambda>k. (- 7, ''SECRET'')\<rparr>) boot =
       \<lparr>trace =
          [Serial (PrintF ''[STM32WL] Waiting for incoming transmission ... ''),
           Radio Receive,
           Serial (PrintlnF ''CRC error!'')],
        rx_count = 1\<rparr>
   \<and> loop radiolib (env_ok\<lparr>receive_result := \<lambda>k. (- 7, ''other'')\<rparr>) boot =
       loop radiolib (env_ok\<lparr>receive_result := \<lambda>k. (- 7, ''SECRET'')\<rparr>) boot"
proof -
  have d1: "RADIOLIB_ERR_CRC_MISMATCH radiolib \<noteq> RADIOLIB_ERR_NONE radiolib"
    and d2: "RADIOLIB_ERR_CRC_MISMATCH radiolib \<noteq> RADIOLIB_ERR_RX_TIMEOUT radiolib"
    by (simp_all add: radiolib_def)
  have r1: "receive_result (env_ok\<lparr>receive_result := \<lambda>k. (- 7, ''SECRET'')\<rparr>) (rx_count boot) =
       (RADIOLIB_ERR_CRC_MISMATCH radiolib, ''SECRET'')"
    and r2: "receive_result (env_ok\<lparr>receive_result := \<lambda>k. (- 7, ''other'')\<rparr>) (rx_count boot) =
       (RADIOLIB_ERR_CRC_MISMATCH radiolib, ''other'')"
    by (simp_all add: radiolib_def)
  show ?thesis
    using d1 d2 r1 r2 crc_mismatch_output_is_fixed [OF d1 d2 r1 r2]
    by (simp add: trace_boot rx_count_boot world.equality)
qed

text \<open>
  Claim C9. When \<open>receive\<close> returns a status that is none of \<open>RADIOLIB_ERR_NONE\<close>,
  \<open>RADIOLIB_ERR_RX_TIMEOUT\<close>, \<open>RADIOLIB_ERR_CRC_MISMATCH\<close>, the iteration prints
  \<open>failed, code\<close> and the raw status, and \<open>loop\<close> returns (it has no halting loop):
  in any longer run the next iteration's prompt and receive call follow directly.
\<close>

theorem other_error_is_reported_and_loop_goes_on:
  assumes "receive_result env (rx_count w) = (code, str)"
    and "code \<noteq> RADIOLIB_ERR_NONE K"
    and "code \<noteq> RADIOLIB_ERR_RX_TIMEOUT K"
    and "code \<noteq> RADIOLIB_ERR_CRC_MISMATCH K"
  shows "loop K env w =
           w\<lparr>trace := trace w @
              [Serial (PrintF ''[STM32WL] Waiting for incoming transmission ... ''),
               Radio Receive,
               Serial (PrintF ''failed, code ''),
               Serial (PrintlnInt code)],
             rx_count := Suc (rx_count w)\<rparr>
       \<and> (\<exists>es. trace (loop_n K env (Suc (Suc n)) w) =
             trace w @
               [Serial (PrintF ''[STM32WL] Waiting for incoming transmission ... ''),
                Radio Receive,
                Serial (PrintF ''failed, code ''),
                Serial (PrintlnInt code)] @
               [Serial (PrintF ''[STM32WL] Waiting for incoming transmission ... ''),
                Radio Receive] @ es)"
proof -
  note this_iteration = loop_other_error [OF assms]
  have "trace (loop K env w) = trace w @
              [Serial (PrintF ''[STM32WL] Waiting for incoming transmission ... ''),
               Radio Receive,
               Serial (PrintF ''failed, code ''),
               Serial (PrintlnInt code)]"
    by (simp add: this_iteration)
  from next_iteration_begins [OF this] this_iteration show ?thesis
    by blast
qed

theorem other_error_is_reported_and_loop_goes_on_witness:
  "receive_result (env_ok\<lparr>receive_result := \<lambda>k. (- 2, [])\<rparr>) (rx_count boot) = (- 2, [])
   \<and> - 2 \<noteq> RADIOLIB_ERR_NONE radiolib
   \<and> - 2 \<noteq> RADIOLIB_ERR_RX_TIMEOUT radiolib
   \<and> - 2 \<noteq> RADIOLIB_ERR_CRC_MISMATCH radiolib
   \<and> loop radiolib (env_ok\<lparr>receive_result := \<lambda>k. (- 2, [])\<rparr>) boot =
       \<lparr>trace =
          [Serial (PrintF ''[STM32WL] Waiting for incoming transmission ... ''),
           Radio Receive,
           Serial (PrintF ''failed, code ''),
           Serial (PrintlnInt (- 2))],
        rx_count = 1\<rparr>
   \<and> (\<exists>es. trace (loop_n radiolib (env_ok\<lparr>receive_result := \<lambda>k. (- 2, [])\<rparr>) 2 boot) =
          [Serial (PrintF ''[STM32WL] Waiting for incoming transmission ... ''),
           Radio Receive,
           Serial (PrintF ''failed, code ''),
           Serial (PrintlnInt (- 2)),
           Serial (PrintF ''[STM32WL] Waiting for incoming transmission ... ''),
           Radio Receive] @ es)"
proof -
  have r: "receive_result (env_ok\<lparr>receive_result := \<lambda>k. (- 2, [])\<rparr>) (rx_count boot) = (- 2, [])"
    by simp
  have d: "- 2 \<noteq> RADIOLIB_ERR_NONE radiolib" "- 2 \<noteq> RADIOLIB_ERR_RX_TIMEOUT radiolib"
    "- 2 \<noteq> RADIOLIB_ERR_CRC_MISMATCH radiolib"
    by (simp_all add: radiolib_def)
  note inst = other_error_is_reported_and_loop_goes_on [OF r d, of 0]
  have c1: "loop radiolib (env_ok\<lparr>receive_result := \<lambda>k. (- 2, [])\<rparr>) boot =
       \<lparr>trace =
          [Serial (PrintF ''[STM32WL] Waiting for incoming transmission ... ''),
           Radio Receive,
           Serial (PrintF ''failed, code ''),
           Serial (PrintlnInt (- 2))],
        rx_count = 1\<rparr>"
    using inst [THEN conjunct1] by (simp add: boot_def)
  have c2: "\<exists>es. trace (loop_n radiolib (env_ok\<lparr>receive_result := \<lambda>k. (- 2, [])\<rparr>) 2 boot) =
          [Serial (PrintF ''[STM32WL] Waiting for incoming transmission ... ''),
           Radio Receive,
           Serial (PrintF ''failed, code ''),
           Serial (PrintlnInt (- 2)),
           Serial (PrintF ''[STM32WL] Waiting for incoming transmission ... ''),
           Radio Receive] @ es"
    using inst [THEN conjunct2] by (simp add: trace_boot numeral_2_eq_2)
  show ?thesis
    using r d c1 c2 by blast
qed

subsection \<open>The receive loop leaves the configuration alone\<close>

text \<open>
  Claim C10. Any number of iterations of \<open>loop\<close> only appends to the trace, and every
  radio call it appends is \<open>receive\<close>, \<open>getRSSI\<close> or \<open>getSNR\<close>. So the configuration
  calls of the trace are the same before and after the iterations, and in a whole run
  they are the same after \<open>n\<close> iterations as right after \<open>setup\<close>.
\<close>

theorem loop_issues_no_config_call:
  "(\<exists>es. trace (loop_n K env n w) = trace w @ es
        \<and> set (radio_calls es) \<subseteq> {Receive, GetRSSI, GetSNR})
   \<and> filter is_config_call (radio_calls (trace (loop_n K env n w))) =
       filter is_config_call (radio_calls (trace w))
   \<and> filter is_config_call (radio_calls (trace (arduino_main K env fuel n w))) =
       filter is_config_call (radio_calls (trace (arduino_main K env fuel 0 w)))"
proof -
  have "filter is_config_call (radio_calls (trace (arduino_main K env fuel n w))) =
       filter is_config_call (radio_calls (trace (arduino_main K env fuel 0 w)))"
    by (simp add: arduino_main_def loop_n_config_calls split: prod.splits option.splits)
  then show ?thesis
    using loop_n_appends [of K env n w] loop_n_config_calls [of K env n w] by blast
qed

theorem loop_issues_no_config_call_witness:
  "(\<exists>es. trace (loop_n radiolib env_ok 3 boot) = trace boot @ es
        \<and> set (radio_calls es) \<subseteq> {Receive, GetRSSI, GetSNR})
   \<and> filter is_config_call (radio_calls (trace (loop_n radiolib env_ok 3 boot))) =
       filter is_config_call (radio_calls (trace boot))
   \<and> filter is_config_call (radio_calls (trace (arduino_main radiolib env_ok 1 3 boot))) =
       filter is_config_call (radio_calls (trace (arduino_main radiolib env_ok 1 0 boot)))"
  by (rule loop_issues_no_config_call)

end
